theory Spec2Isabelle
  imports Main "HOL-Library.Word" "HOL-Library.Char_ord" "HOL-Library.List_Lexorder"
begin

section \<open>Storage backends of backilli: a shallow embedding\<close>

text \<open>
  The repository has two storage clients with the same five operations: package
  \<open>local\<close> (a rooted directory tree) and package \<open>yandex\<close> (one bucket of an
  S3-compatible object store). Both are Go code over the operating system and the AWS
  SDK. The embedding below keeps the control flow of every function of the two packages
  and replaces what lies outside the repository by an explicit state:
  \<^item> the local file system is an association list from paths to nodes;
  \<^item> the object store is a list of stored objects, with the faults a call can meet;
  \<^item> a Go \<open>error\<close> is a value of type \<open>error\<close>, a run-time panic is the
    constructor \<open>Panic\<close> of the same type, so that every early return and every panic
    is a branch of the model.
\<close>

subsection \<open>Bytes, time stamps and errors\<close>

type_synonym byte = "8 word"

type_synonym time = nat

datatype error =
    ErrNotExist
  | EEXIST
  | ENOTEMPTY
  | EISDIR
  | ENOTDIR
  | EINVAL
  | EOF
  | NoSuchKey
  | ErrorString string
  | OperationError error
  | Panic string

text \<open>\<open>var ErrLoadingConfiguration = fmt.Errorf("failed to load cloud configuration")\<close>\<close>

definition ErrLoadingConfiguration :: error where
  "ErrLoadingConfiguration = ErrorString ''failed to load cloud configuration''"

text \<open>\<open>var limit int64 = 536870912\<close>\<close>

definition limit :: int where
  "limit = 536870912"

subsection \<open>The operating system: paths, nodes, descriptors\<close>

text \<open>
  A node is a regular file (its bytes and modification time) or a directory. Paths are
  the keys as written: the model takes them normalised, with \<open>/\<close> between segments.
  The clock is the time the operating system stamps on what it creates or writes.
  The file system has no permissions and no device errors: a call fails only for what
  is, or is not, in the tree.
\<close>

datatype node = FileNode "byte list" time | DirNode time

record filesystem =
  nodes :: "(string \<times> node) list"
  clock :: time

definition lookup :: "filesystem \<Rightarrow> string \<Rightarrow> node option" where
  "lookup fs p = map_of (nodes fs) p"

definition store :: "filesystem \<Rightarrow> string \<Rightarrow> node \<Rightarrow> filesystem" where
  "store fs p n = fs\<lparr>nodes := (p, n) # filter (\<lambda>e. fst e \<noteq> p) (nodes fs)\<rparr>"

definition unlink :: "filesystem \<Rightarrow> string \<Rightarrow> filesystem" where
  "unlink fs p = fs\<lparr>nodes := filter (\<lambda>e. fst e \<noteq> p) (nodes fs)\<rparr>"

definition is_prefix :: "'a list \<Rightarrow> 'a list \<Rightarrow> bool" where
  "is_prefix p s = (take (length p) s = p)"

definition parent_dir :: "string \<Rightarrow> string" where
  "parent_dir p = rev (tl (dropWhile (\<lambda>c. c \<noteq> CHR ''/'') (rev p)))"

definition base_name :: "string \<Rightarrow> string" where
  "base_name p = rev (takeWhile (\<lambda>c. c \<noteq> CHR ''/'') (rev p))"

text \<open>The directory a new entry goes into has to exist; the empty parent stands for
  the working directory or the root of the tree, which always exist.\<close>

definition parent_exists :: "filesystem \<Rightarrow> string \<Rightarrow> bool" where
  "parent_exists fs p =
     (parent_dir p = [] \<or> (case lookup fs (parent_dir p) of Some (DirNode t) \<Rightarrow> True | _ \<Rightarrow> False))"

text \<open>\<open>os.FileInfo\<close>: the size is the length of a regular file; for a directory it
  depends on the system (one block here).\<close>

record FileInfo =
  Size :: int
  IsDir :: bool
  ModTime :: time

definition info_of :: "node \<Rightarrow> FileInfo" where
  "info_of n = (case n of
      FileNode d t \<Rightarrow> \<lparr>Size = int (length d), IsDir = False, ModTime = t\<rparr>
    | DirNode t \<Rightarrow> \<lparr>Size = 4096, IsDir = True, ModTime = t\<rparr>)"

definition os_Stat :: "filesystem \<Rightarrow> string \<Rightarrow> error + FileInfo" where
  "os_Stat fs p = (case lookup fs p of None \<Rightarrow> Inl ErrNotExist | Some n \<Rightarrow> Inr (info_of n))"

text \<open>\<open>os.IsNotExist\<close> and \<open>os.IsExist\<close> classify an error value. \<open>os.IsExist\<close>
  holds of the errors that report that a file or directory already exists (\<open>EEXIST\<close>,
  \<open>ENOTEMPTY\<close>); the nil error is not one of them.\<close>

definition os_IsNotExist :: "error option \<Rightarrow> bool" where
  "os_IsNotExist err = (err = Some ErrNotExist)"

definition os_IsExist :: "error option \<Rightarrow> bool" where
  "os_IsExist err = (err = Some EEXIST \<or> err = Some ENOTEMPTY)"

text \<open>An open file: the path it was opened at and the position of the next read or
  write. Reads and writes go to the file system as it is at that moment, so two
  descriptors of one path see each other's writes.\<close>

record os_File =
  path :: string
  offset :: nat

text \<open>\<open>os.Open(name)\<close>: read-only; opening a directory succeeds.\<close>

definition os_Open :: "filesystem \<Rightarrow> string \<Rightarrow> error + os_File" where
  "os_Open fs p = (case lookup fs p of
      None \<Rightarrow> Inl ErrNotExist
    | Some n \<Rightarrow> Inr \<lparr>path = p, offset = 0\<rparr>)"

text \<open>\<open>os.OpenFile(name, os.O_RDWR, perm)\<close>: a directory cannot be opened for writing.\<close>

definition os_OpenFile_RDWR :: "filesystem \<Rightarrow> string \<Rightarrow> error + os_File" where
  "os_OpenFile_RDWR fs p = (case lookup fs p of
      None \<Rightarrow> Inl ErrNotExist
    | Some (DirNode t) \<Rightarrow> Inl EISDIR
    | Some (FileNode d t) \<Rightarrow> Inr \<lparr>path = p, offset = 0\<rparr>)"

text \<open>\<open>os.OpenFile(name, os.O_CREATE|os.O_WRONLY, perm)\<close>: creates an empty file when
  there is none; an existing file is opened as it is, at position 0, and keeps its
  bytes (the flags have no \<open>O_TRUNC\<close>).\<close>

definition os_OpenFile_CREATE_WRONLY :: "filesystem \<Rightarrow> string \<Rightarrow> (error + os_File) \<times> filesystem" where
  "os_OpenFile_CREATE_WRONLY fs p = (case lookup fs p of
      Some (DirNode t) \<Rightarrow> (Inl EISDIR, fs)
    | Some (FileNode d t) \<Rightarrow> (Inr \<lparr>path = p, offset = 0\<rparr>, fs)
    | None \<Rightarrow>
        if parent_exists fs p then (Inr \<lparr>path = p, offset = 0\<rparr>, store fs p (FileNode [] (clock fs)))
        else (Inl ErrNotExist, fs))"

text \<open>\<open>os.Create(name)\<close>: as above with \<open>O_TRUNC\<close>, an existing file is emptied.\<close>

definition os_Create :: "filesystem \<Rightarrow> string \<Rightarrow> (error + os_File) \<times> filesystem" where
  "os_Create fs p = (case lookup fs p of
      Some (DirNode t) \<Rightarrow> (Inl EISDIR, fs)
    | Some (FileNode d t) \<Rightarrow> (Inr \<lparr>path = p, offset = 0\<rparr>, store fs p (FileNode [] (clock fs)))
    | None \<Rightarrow>
        if parent_exists fs p then (Inr \<lparr>path = p, offset = 0\<rparr>, store fs p (FileNode [] (clock fs)))
        else (Inl ErrNotExist, fs))"

text \<open>\<open>fd.Stat()\<close>\<close>

definition file_Stat :: "filesystem \<Rightarrow> os_File \<Rightarrow> error + FileInfo" where
  "file_Stat fs fd = os_Stat fs (path fd)"

text \<open>
  \<open>fd.Read(buf)\<close> returns \<open>(n, err)\<close> and fills \<open>buf[0:n]\<close>; the rest of the buffer
  keeps what it held. The result is \<open>(n, err, buf, fd)\<close> with the buffer and the
  descriptor after the call. A regular file gives \<open>min (len buf) (bytes left)\<close> bytes,
  \<open>(0, io.EOF)\<close> at its end and \<open>(0, nil)\<close> for an empty buffer.
\<close>

definition file_Read :: "filesystem \<Rightarrow> os_File \<Rightarrow> byte list \<Rightarrow> nat \<times> error option \<times> byte list \<times> os_File" where
  "file_Read fs fd buf = (case lookup fs (path fd) of
      None \<Rightarrow> (0, Some ErrNotExist, buf, fd)
    | Some (DirNode t) \<Rightarrow> (0, Some EISDIR, buf, fd)
    | Some (FileNode d t) \<Rightarrow>
        if length buf = 0 then (0, None, buf, fd)
        else if length d \<le> offset fd then (0, Some EOF, buf, fd)
        else
          let got = take (length buf) (drop (offset fd) d);
              n = length got
          in (n, None, got @ drop n buf, fd\<lparr>offset := offset fd + n\<rparr>))"

text \<open>\<open>fd.Write(b)\<close> writes all of \<open>b\<close> at the position of the descriptor, over what
  the file holds there, and extends the file when it ends before.\<close>

definition overwrite :: "byte list \<Rightarrow> nat \<Rightarrow> byte list \<Rightarrow> byte list" where
  "overwrite d off b =
     take off (d @ replicate (off - length d) 0) @ b @ drop (off + length b) d"

definition file_Write :: "filesystem \<Rightarrow> os_File \<Rightarrow> byte list \<Rightarrow> error option \<times> os_File \<times> filesystem" where
  "file_Write fs fd b = (case lookup fs (path fd) of
      None \<Rightarrow> (Some ErrNotExist, fd, fs)
    | Some (DirNode t) \<Rightarrow> (Some EISDIR, fd, fs)
    | Some (FileNode d t) \<Rightarrow>
        (None, fd\<lparr>offset := offset fd + length b\<rparr>,
         store fs (path fd) (FileNode (overwrite d (offset fd) b) (clock fs))))"

text \<open>\<open>os.MkdirAll(path, perm)\<close>: the directory and every missing ancestor; it fails
  when the path or an ancestor is a regular file.\<close>

definition ancestors :: "string \<Rightarrow> string list" where
  "ancestors p =
     filter (\<lambda>q. q \<noteq> []) (map (\<lambda>i. take i p) (filter (\<lambda>i. p ! i = CHR ''/'') [0..<length p])) @ [p]"

definition is_file :: "filesystem \<Rightarrow> string \<Rightarrow> bool" where
  "is_file fs p = (case lookup fs p of Some (FileNode d t) \<Rightarrow> True | _ \<Rightarrow> False)"

definition is_dir :: "filesystem \<Rightarrow> string \<Rightarrow> bool" where
  "is_dir fs p = (case lookup fs p of Some (DirNode t) \<Rightarrow> True | _ \<Rightarrow> False)"

definition mkdir_if_missing :: "string \<Rightarrow> filesystem \<Rightarrow> filesystem" where
  "mkdir_if_missing p fs = (if lookup fs p = None then store fs p (DirNode (clock fs)) else fs)"

definition os_MkdirAll :: "filesystem \<Rightarrow> string \<Rightarrow> error option \<times> filesystem" where
  "os_MkdirAll fs p =
     (if list_ex (is_file fs) (ancestors p) then (Some ENOTDIR, fs)
      else (None, fold mkdir_if_missing (ancestors p) fs))"

text \<open>\<open>os.RemoveAll(path)\<close> removes the path and everything below it, and returns nil
  when the path does not exist. It does nothing for the empty path, refuses with
  \<open>EINVAL\<close> the path \<open>.\<close> and every path that ends in \<open>/.\<close>, and fails with
  \<open>ENOTDIR\<close> when the path lies below a regular file.\<close>

definition endsWithDot :: "string \<Rightarrow> bool" where
  "endsWithDot p =
     (p = ''.'' \<or> (2 \<le> length p \<and> p ! (length p - 1) = CHR ''.'' \<and> p ! (length p - 2) = CHR ''/''))"

definition below :: "string \<Rightarrow> string \<Rightarrow> bool" where
  "below p q = (q = p \<or> is_prefix (p @ ''/'') q)"

definition os_RemoveAll :: "filesystem \<Rightarrow> string \<Rightarrow> error option \<times> filesystem" where
  "os_RemoveAll fs p =
     (if p = [] then (None, fs)
      else if endsWithDot p then (Some EINVAL, fs)
      else if list_ex (is_file fs) (butlast (ancestors p)) then (Some ENOTDIR, fs)
      else (None, fs\<lparr>nodes := filter (\<lambda>e. \<not> below p (fst e)) (nodes fs)\<rparr>))"

text \<open>\<open>os.Remove(name)\<close> removes one file or one empty directory.\<close>

definition os_Remove :: "filesystem \<Rightarrow> string \<Rightarrow> error option \<times> filesystem" where
  "os_Remove fs p = (case lookup fs p of
      None \<Rightarrow> (Some ErrNotExist, fs)
    | Some (FileNode d t) \<Rightarrow> (None, unlink fs p)
    | Some (DirNode t) \<Rightarrow>
        if list_ex (\<lambda>e. fst e \<noteq> p \<and> below p (fst e)) (nodes fs)
        then (Some ENOTEMPTY, fs)
        else (None, unlink fs p))"

text \<open>\<open>ioutil.ReadDir(dirname)\<close>: the entries directly in the directory, sorted by
  name.\<close>

definition ioutil_ReadDir :: "filesystem \<Rightarrow> string \<Rightarrow> error + (string \<times> FileInfo) list" where
  "ioutil_ReadDir fs p = (case lookup fs p of
      None \<Rightarrow> Inl ErrNotExist
    | Some (FileNode d t) \<Rightarrow> Inl ENOTDIR
    | Some (DirNode t) \<Rightarrow>
        Inr (sort_key fst
          (map (\<lambda>e. (base_name (fst e), info_of (snd e)))
            (filter (\<lambda>e. fst e \<noteq> [] \<and> parent_dir (fst e) = p) (nodes fs)))))"

text \<open>\<open>os.TempDir()\<close>: the default of a Unix system.\<close>

definition os_TempDir :: string where
  "os_TempDir = ''/tmp''"

subsection \<open>Package fs: path helpers\<close>

text \<open>Modelled from the spec: \<open>fs.GetFullPath(sep, root, name)\<close> is not among the
  source files. The spec has it join the root and the name (the temporary directory and
  a part name, a destination key and a base name, the local root and a destination);
  an empty \<open>sep\<close> stands for the separator of the system.\<close>

definition GetFullPath :: "string \<Rightarrow> string \<Rightarrow> string \<Rightarrow> string" where
  "GetFullPath sep root name = root @ (if sep = [] then ''/'' else sep) @ name"

text \<open>Modelled from the spec: \<open>fs.Dir(path)\<close> is not among the source files. The
  spec has it compute the parent directory of the destination.\<close>

definition Dir :: "string \<Rightarrow> string" where
  "Dir p = parent_dir p"

text \<open>Modelled from the spec: \<open>fs.Base(path)\<close> is not among the source files. The
  spec has it give the base name of the temporary file.\<close>

definition Base :: "string \<Rightarrow> string" where
  "Base p = base_name p"

subsection \<open>Package unit\<close>

text \<open>\<open>unit.File\<close>, as the two \<open>Ls\<close> fill it: no descriptor, a name and a date.\<close>

record unit_File =
  Name :: string
  Date :: time

text \<open>Modelled from the spec: the declaration of \<open>unit.ClientConfig\<close> is not among
  the source files. The spec lists region, access key id, access key secret, bucket
  name and root path; the fields carry the names the two constructors read.\<close>

record ClientConfig =
  Region :: string
  KeyId :: string
  KeySecret :: string
  BucketName :: string
  Root :: string

subsection \<open>Package local\<close>

record LocalClient =
  root :: string

definition local_NewClient :: "ClientConfig \<Rightarrow> LocalClient" where
  "local_NewClient conf = \<lparr>root = Root conf\<rparr>"

text \<open>The inner loop of \<open>Read\<close>,
  \<open>for i := 0; i < n; i++ { res[(offs + i)] = buffer[i] }\<close>:
  an index past the end of \<open>res\<close> panics.\<close>

definition copy_block :: "byte list \<Rightarrow> nat \<Rightarrow> byte list \<Rightarrow> nat \<Rightarrow> error + byte list" where
  "copy_block res offs buffer n =
     fold (\<lambda>i r. case r of
                Inl e \<Rightarrow> Inl e
              | Inr res' \<Rightarrow>
                  if offs + i < length res' then Inr (res'[offs + i := buffer ! i])
                  else Inl (Panic ''index out of range''))
       [0..<n] (Inr res)"

text \<open>The outer loop of \<open>Read\<close>. It leaves on \<open>io.EOF\<close> with \<open>res\<close>, on another
  error with that error; \<open>offs\<close> advances by \<open>len(buffer)\<close>. A read of no byte and
  no error goes round again, so the loop need not end: the result is an option.\<close>

partial_function (option) local_Read_loop ::
  "filesystem \<Rightarrow> os_File \<Rightarrow> byte list \<Rightarrow> byte list \<Rightarrow> nat \<Rightarrow> (error + byte list) option" where
  "local_Read_loop fs fd res buffer offs =
     (case file_Read fs fd buffer of (n, err, buffer', fd') \<Rightarrow>
        if err = Some EOF then Some (Inr res)
        else (case err of
            Some e \<Rightarrow> Some (Inl e)
          | None \<Rightarrow>
              (case copy_block res offs buffer' n of
                 Inl e \<Rightarrow> Some (Inl e)
               | Inr res' \<Rightarrow> local_Read_loop fs fd' res' buffer' (offs + length buffer'))))"

definition local_Read :: "LocalClient \<Rightarrow> filesystem \<Rightarrow> string \<Rightarrow> (error + byte list) option" where
  "local_Read c fs p =
     (case os_OpenFile_RDWR fs p of
        Inl err \<Rightarrow> Some (Inl err)
      | Inr fd \<Rightarrow>
          (case file_Stat fs fd of
             Inl err \<Rightarrow> Some (Inl err)
           | Inr stat \<Rightarrow>
               local_Read_loop fs fd (replicate (nat (Size stat)) 0) (replicate 2048 0) 0))"

text \<open>The block \<open>Write\<close> runs for the root and again for the parent directory of the
  destination: \<open>os.Stat\<close>, and \<open>os.MkdirAll\<close> when the error is that the path does not
  exist.\<close>

definition stat_or_mkdir :: "filesystem \<Rightarrow> string \<Rightarrow> error option \<times> filesystem" where
  "stat_or_mkdir fs p =
     (case os_Stat fs p of
        Inr stat \<Rightarrow> (None, fs)
      | Inl err \<Rightarrow> if os_IsNotExist (Some err) then os_MkdirAll fs p else (Some err, fs))"

text \<open>The copying loop of \<open>Write\<close>: each round reads into \<open>buf\<close> and, when it got
  \<open>n > 0\<close> bytes, writes \<open>buf\<close> (the source has \<open>fd.Write(buf)\<close>, the whole buffer).
  It leaves on \<open>io.EOF\<close> with the nil error of the enclosing function.\<close>

partial_function (option) local_Write_loop ::
  "filesystem \<Rightarrow> os_File \<Rightarrow> os_File \<Rightarrow> byte list \<Rightarrow> (error option \<times> filesystem) option" where
  "local_Write_loop fs rd fd buf =
     (case file_Read fs rd buf of (n, err, buf', rd') \<Rightarrow>
        (case err of
           Some e \<Rightarrow> if e = EOF then Some (None, fs) else Some (Some e, fs)
         | None \<Rightarrow>
             if 0 < n then
               (case file_Write fs fd buf' of
                  (Some e, fd', fs') \<Rightarrow> Some (Some e, fs')
                | (None, fd', fs') \<Rightarrow> local_Write_loop fs' rd' fd' buf')
             else local_Write_loop fs rd' fd buf'))"

definition local_Write ::
  "LocalClient \<Rightarrow> filesystem \<Rightarrow> string \<Rightarrow> string \<Rightarrow> (error option \<times> filesystem) option" where
  "local_Write c fs src dst =
     (case stat_or_mkdir fs (root c) of
        (Some err, fs1) \<Rightarrow> Some (Some err, fs1)
      | (None, fs1) \<Rightarrow>
          let fpf = GetFullPath [] (root c) dst;
              fpd = Dir fpf
          in (case stat_or_mkdir fs1 fpd of
                (Some err, fs2) \<Rightarrow> Some (Some err, fs2)
              | (None, fs2) \<Rightarrow>
                  (case (if os_IsExist (case os_Stat fs2 fpf of Inl err \<Rightarrow> Some err | Inr stat \<Rightarrow> None)
                         then os_RemoveAll fs2 fpf else (None, fs2)) of
                     (Some err, fs3) \<Rightarrow> Some (Some err, fs3)
                   | (None, fs3) \<Rightarrow>
                       (case os_OpenFile_CREATE_WRONLY fs3 fpf of
                          (Inl err, fs4) \<Rightarrow> Some (Some err, fs4)
                        | (Inr fd, fs4) \<Rightarrow>
                            (case os_Open fs4 src of
                               Inl err \<Rightarrow> Some (Some err, fs4)
                             | Inr rd \<Rightarrow> local_Write_loop fs4 rd fd (replicate 4096 0))))))"

definition local_Ls :: "LocalClient \<Rightarrow> filesystem \<Rightarrow> string \<Rightarrow> error + unit_File list" where
  "local_Ls c fs p =
     (case os_Stat fs p of
        Inl err \<Rightarrow> Inl err
      | Inr stat \<Rightarrow>
          if \<not> IsDir stat then Inl (ErrorString ''file is not a directory'')
          else (case ioutil_ReadDir fs p of
                  Inl err \<Rightarrow> Inl err
                | Inr ls \<Rightarrow> Inr (map (\<lambda>f. \<lparr>Name = fst f, Date = ModTime (snd f)\<rparr>) ls)))"


definition local_Close :: "LocalClient \<Rightarrow> error option" where
  "local_Close c = None"

subsection \<open>The object store and the SDK client\<close>

text \<open>
  The service keeps its objects in a list (a put replaces the object of the same bucket
  and key in place, or appends). A call can meet two faults. The first is an error that
  every request meets whatever its key: the transport fails, or the service refuses the
  request (it does not have the bucket, it does not accept the credentials). The second
  is a connection that breaks while the body of a get-object response is read, after
  some bytes.
\<close>

record stored_object =
  obj_bucket :: string
  obj_key :: string
  obj_data :: "byte list"
  obj_modified :: time

record s3_service =
  objects :: "stored_object list"
  transport_error :: "error option"
  body_error :: "(nat \<times> error) option"
  now :: time

record Endpoint =
  PartitionID :: string
  URL :: string
  SigningRegion :: string

text \<open>\<open>aws.Config\<close>, as far as the model uses it: the region and the endpoint
  resolver it was loaded with (the service of the model does not authenticate, so the
  credentials play no part). \<open>s3.NewFromConfig(cfg)\<close> keeps the configuration, so the
  client is modelled by it.\<close>

record aws_Config =
  cfg_Region :: string
  cfg_EndpointResolver :: "string \<Rightarrow> string \<Rightarrow> error + Endpoint"

definition s3_ServiceID :: string where
  "s3_ServiceID = ''S3''"

definition s3_NewFromConfig :: "aws_Config \<Rightarrow> aws_Config" where
  "s3_NewFromConfig cfg = cfg"

text \<open>Every operation of the client first resolves the endpoint of the service for
  the region of its configuration, through the resolver the configuration holds; the
  error of the resolver comes back wrapped as an operation error. Then the request is
  built, and one that carries an empty key in its path is refused before it is sent.
  Then the request goes over the transport.\<close>

definition s3_resolve :: "aws_Config \<Rightarrow> error option" where
  "s3_resolve cl =
     (case cfg_EndpointResolver cl s3_ServiceID (cfg_Region cl) of
        Inl err \<Rightarrow> Some (OperationError err)
      | Inr ep \<Rightarrow> None)"

definition s3_send :: "aws_Config \<Rightarrow> s3_service \<Rightarrow> error option" where
  "s3_send cl svc =
     (case s3_resolve cl of
        Some err \<Rightarrow> Some err
      | None \<Rightarrow> transport_error svc)"

definition s3_send_key :: "aws_Config \<Rightarrow> s3_service \<Rightarrow> string \<Rightarrow> error option" where
  "s3_send_key cl svc key =
     (case s3_resolve cl of
        Some err \<Rightarrow> Some err
      | None \<Rightarrow>
          if key = [] then Some (OperationError (ErrorString ''input member Key must not be empty''))
          else transport_error svc)"

definition named :: "string \<Rightarrow> string \<Rightarrow> stored_object \<Rightarrow> bool" where
  "named bucket key ob = (obj_bucket ob = bucket \<and> obj_key ob = key)"

text \<open>The body of a response is a reader. It is given by the outcomes of its
  successive \<open>Read\<close> calls, each the bytes it delivers and its error; after the last
  one the reader is at its end and returns \<open>(0, io.EOF)\<close>.\<close>

type_synonym body = "(byte list \<times> error option) list"

record GetObjectOutput =
  ContentLength :: int
  Body :: body

definition s3_GetObject :: "aws_Config \<Rightarrow> s3_service \<Rightarrow> string \<Rightarrow> string \<Rightarrow> error + GetObjectOutput" where
  "s3_GetObject cl svc bucket key =
     (case s3_send_key cl svc key of
        Some err \<Rightarrow> Inl err
      | None \<Rightarrow>
          (case find (named bucket key) (objects svc) of
             None \<Rightarrow> Inl NoSuchKey
           | Some ob \<Rightarrow>
               Inr \<lparr>ContentLength = int (length (obj_data ob)),
                    Body = (case body_error svc of
                              None \<Rightarrow> [(obj_data ob, None)]
                            | Some (k, e) \<Rightarrow> [(take k (obj_data ob), None), ([], Some e)])\<rparr>))"

text \<open>\<open>resp.Body.Read(buf)\<close>: the next outcome of the reader, at most \<open>len(buf)\<close>
  bytes of it.\<close>

definition body_Read :: "body \<Rightarrow> byte list \<Rightarrow> nat \<times> error option \<times> byte list \<times> body" where
  "body_Read b buf = (case b of
      [] \<Rightarrow> (0, Some EOF, buf, [])
    | (chunk, rerr) # rest \<Rightarrow>
        let got = take (length buf) chunk
        in (length got, rerr, got @ drop (length got) buf, rest))"

text \<open>What the SDK sends as the body of a put: the file from the position of the
  descriptor to its end.\<close>

definition file_ReadAll :: "filesystem \<Rightarrow> os_File \<Rightarrow> error + byte list" where
  "file_ReadAll fs fd = (case lookup fs (path fd) of
      None \<Rightarrow> Inl ErrNotExist
    | Some (DirNode t) \<Rightarrow> Inl EISDIR
    | Some (FileNode d t) \<Rightarrow> Inr (drop (offset fd) d))"

definition upsert :: "stored_object \<Rightarrow> stored_object list \<Rightarrow> stored_object list" where
  "upsert ob obs =
     (if list_ex (named (obj_bucket ob) (obj_key ob)) obs
      then map (\<lambda>x. if named (obj_bucket ob) (obj_key ob) x then ob else x) obs
      else obs @ [ob])"

definition s3_PutObject ::
  "aws_Config \<Rightarrow> s3_service \<Rightarrow> filesystem \<Rightarrow> string \<Rightarrow> string \<Rightarrow> os_File \<Rightarrow> int \<Rightarrow> error option \<times> s3_service" where
  "s3_PutObject cl svc fs bucket key fd clen =
     (case s3_send_key cl svc key of
        Some err \<Rightarrow> (Some err, svc)
      | None \<Rightarrow>
          (case file_ReadAll fs fd of
             Inl err \<Rightarrow> (Some err, svc)
           | Inr d \<Rightarrow>
               if int (length d) \<noteq> clen then (Some (ErrorString ''content length mismatch''), svc)
               else (None, svc\<lparr>objects :=
                        upsert \<lparr>obj_bucket = bucket, obj_key = key, obj_data = d, obj_modified = now svc\<rparr>
                          (objects svc)\<rparr>)))"

text \<open>A list-objects call returns the objects of the bucket whose key starts with the
  prefix, at most 1000 of them.\<close>

definition s3_ListObjectsV2 ::
  "aws_Config \<Rightarrow> s3_service \<Rightarrow> string \<Rightarrow> string \<Rightarrow> error + stored_object list" where
  "s3_ListObjectsV2 cl svc bucket pre =
     (case s3_send cl svc of
        Some err \<Rightarrow> Inl err
      | None \<Rightarrow>
          Inr (take 1000 (filter (\<lambda>ob. obj_bucket ob = bucket \<and> is_prefix pre (obj_key ob)) (objects svc))))"


text \<open>Modelled from the spec: \<open>env.Set\<close> (package \<open>fs/environment\<close>) is not among the
  source files. The spec has it write a value into the environment of the process.\<close>

type_synonym environment = "(string \<times> string) list"

definition env_Set :: "environment \<Rightarrow> string \<Rightarrow> string \<Rightarrow> environment" where
  "env_Set env k v = (k, v) # filter (\<lambda>e. fst e \<noteq> k) env"

definition env_Get :: "environment \<Rightarrow> string \<Rightarrow> string" where
  "env_Get env k = (case map_of env k of None \<Rightarrow> [] | Some v \<Rightarrow> v)"

text \<open>\<open>config.LoadDefaultConfig(ctx, config.WithEndpointResolverWithOptions(r))\<close>
  records the resolver in the configuration; it does not call it. The region is the
  first non-empty one of the variables \<open>AWS_REGION\<close> and \<open>AWS_DEFAULT_REGION\<close> of
  the environment, and the region of the shared configuration of the machine when both
  are empty. The argument \<open>loaded\<close> is what the loader meets beyond these two
  variables: \<open>None\<close> when loading fails (a shared configuration it cannot read, a
  setting it cannot parse), which fails the call, and otherwise the region the shared
  configuration names (empty when it names none).\<close>

definition config_LoadDefaultConfig ::
  "environment \<Rightarrow> string option \<Rightarrow> (string \<Rightarrow> string \<Rightarrow> error + Endpoint) \<Rightarrow> error + aws_Config" where
  "config_LoadDefaultConfig env loaded r =
     (case loaded of
        None \<Rightarrow> Inl (ErrorString ''failed to load shared config'')
      | Some shared_region \<Rightarrow>
          Inr \<lparr>cfg_Region =
                 (if env_Get env ''AWS_REGION'' \<noteq> [] then env_Get env ''AWS_REGION''
                  else if env_Get env ''AWS_DEFAULT_REGION'' \<noteq> [] then env_Get env ''AWS_DEFAULT_REGION''
                  else shared_region),
               cfg_EndpointResolver = r\<rparr>)"

subsection \<open>Package yandex\<close>

record YandexClient =
  s3client :: aws_Config
  bucketName :: string
  cloudSep :: string
  cloudRoot :: string

definition yandexResolver :: "string \<Rightarrow> string \<Rightarrow> error + Endpoint" where
  "yandexResolver service region =
     (if service = s3_ServiceID \<and> region = ''ru-central1'' then
        Inr \<lparr>PartitionID = ''yc'', URL = ''https://storage.yandexcloud.net'', SigningRegion = ''ru-central1''\<rparr>
      else Inl (ErrorString ''unknown endpoint requested''))"

definition yandex_NewClient ::
  "ClientConfig \<Rightarrow> environment \<Rightarrow> string option \<Rightarrow> (error + YandexClient) \<times> environment" where
  "yandex_NewClient conf env loaded =
     (let env1 = env_Set env ''AWS_REGION'' (Region conf);
          env2 = env_Set env1 ''AWS_ACCESS_KEY_ID'' (KeyId conf);
          env3 = env_Set env2 ''AWS_SECRET_ACCESS_KEY'' (KeySecret conf);
          customResolver = yandexResolver
      in (case config_LoadDefaultConfig env3 loaded customResolver of
            Inl err \<Rightarrow> (Inl ErrLoadingConfiguration, env3)
          | Inr cfg \<Rightarrow>
              (Inr \<lparr>s3client = s3_NewFromConfig cfg, bucketName = BucketName conf,
                    cloudSep = ''/'', cloudRoot = Root conf\<rparr>, env3)))"

text \<open>The loop of \<open>Read\<close>. It appends \<open>buf[:num]\<close> when \<open>num > 0\<close>, and leaves on
  \<open>rerr == io.EOF || rerr != nil\<close> when \<open>num\<close> is 0; the error itself is not kept.\<close>

function read_body :: "body \<Rightarrow> byte list \<Rightarrow> byte list \<Rightarrow> byte list" where
  "read_body b buf buffer =
     (case body_Read b buf of (num, rerr, buf', b') \<Rightarrow>
        if 0 < num then read_body b' buf' (buffer @ take num buf')
        else if rerr = Some EOF \<or> rerr \<noteq> None then buffer
        else read_body b' buf' buffer)"
  by pat_completeness auto
termination
  by (relation "measure (\<lambda>(b, buf, buffer). length b)")
     (auto simp: body_Read_def Let_def split: list.splits)

definition yandex_Read :: "YandexClient \<Rightarrow> s3_service \<Rightarrow> string \<Rightarrow> error + byte list" where
  "yandex_Read c svc p =
     (case s3_GetObject (s3client c) svc (bucketName c) p of
        Inl err \<Rightarrow> Inl err
      | Inr resp \<Rightarrow>
          if ContentLength resp < 0 then Inl (Panic ''makeslice: len out of range'')
          else Inr (read_body (Body resp) (replicate (nat (ContentLength resp)) 0) []))"

text \<open>\<open>bytes.ReplaceAll(s, old, new)\<close> for an \<open>old\<close> and a \<open>new\<close> of one byte each,
  as \<open>put\<close> calls it.\<close>

primrec bytes_ReplaceAll :: "string \<Rightarrow> char \<Rightarrow> char \<Rightarrow> string" where
  "bytes_ReplaceAll [] old new = []"
| "bytes_ReplaceAll (x # xs) old new = (if x = old then new else x) # bytes_ReplaceAll xs old new"

text \<open>The key of \<open>put\<close> (lines 159 to 167 of the source): the index
  \<open>cloudRoot[len(cloudRoot)-1]\<close> panics on the empty root.\<close>

definition yapath :: "YandexClient \<Rightarrow> string \<Rightarrow> error + string" where
  "yapath c dst =
     (let cloudRoot = cloudRoot c
      in if cloudRoot = [] then Inl (Panic ''index out of range'')
         else
           let cloudRoot' =
                 (if cloudRoot ! (length cloudRoot - 1) = CHR 0x5C \<or>
                     cloudRoot ! (length cloudRoot - 1) = CHR 0x2F
                  then take (length cloudRoot - 1) cloudRoot else cloudRoot);
               s = bytes_ReplaceAll dst (CHR 0x5C) (CHR 0x2F)
           in Inr (cloudRoot' @ cloudSep c @ s))"

definition put ::
  "YandexClient \<Rightarrow> filesystem \<Rightarrow> s3_service \<Rightarrow> string \<Rightarrow> string \<Rightarrow> error option \<times> filesystem \<times> s3_service" where
  "put c fs svc src dst =
     (case os_Open fs src of
        Inl err \<Rightarrow> (Some err, fs, svc)
      | Inr fd \<Rightarrow>
          (case file_Stat fs fd of
             Inl err \<Rightarrow> (Some err, fs, svc)
           | Inr stat \<Rightarrow>
               (case yapath c dst of
                  Inl err \<Rightarrow> (Some err, fs, svc)
                | Inr key \<Rightarrow>
                    (case s3_PutObject (s3client c) svc fs (bucketName c) key fd (Size stat) of
                       (Some err, svc') \<Rightarrow> (Some err, fs, svc')
                     | (None, svc') \<Rightarrow> (None, fs, svc')))))"

definition putOnce ::
  "YandexClient \<Rightarrow> filesystem \<Rightarrow> s3_service \<Rightarrow> string \<Rightarrow> string \<Rightarrow> error option \<times> filesystem \<times> s3_service" where
  "putOnce c fs svc src dst = put c fs svc src dst"

text \<open>\<open>fmt.Sprintf("zip.%03d", part)\<close>: the decimal digits of the part number, with
  zeros in front up to a width of three.\<close>

fun decimal :: "nat \<Rightarrow> string" where
  "decimal n =
     (if n < 10 then [''0123456789'' ! n]
      else decimal (n div 10) @ [''0123456789'' ! (n mod 10)])"

definition Sprintf_zip :: "nat \<Rightarrow> string" where
  "Sprintf_zip part = ''zip.'' @ replicate (3 - length (decimal part)) (CHR ''0'') @ decimal part"

text \<open>
  \<open>writeAndPutPartOfFiles(fd, buf, part, dst)\<close> returns \<open>(stopped, err)\<close>; the model
  adds the descriptor, the buffer, the file system and the service after the call. The
  number of bytes read is not in scope after the read: the temporary file gets the
  whole buffer, \<open>fd.Write(buf)\<close>.
\<close>

definition writeAndPutPartOfFiles ::
  "YandexClient \<Rightarrow> filesystem \<Rightarrow> s3_service \<Rightarrow> os_File \<Rightarrow> byte list \<Rightarrow> nat \<Rightarrow> string \<Rightarrow>
     bool \<times> error option \<times> os_File \<times> byte list \<times> filesystem \<times> s3_service" where
  "writeAndPutPartOfFiles c fs svc fd buf part dst =
     (case file_Read fs fd buf of (n, rerr, buf', fd') \<Rightarrow>
        (case rerr of
           Some err \<Rightarrow>
             if err = EOF then (True, None, fd', buf', fs, svc)
             else (True, Some err, fd', buf', fs, svc)
         | None \<Rightarrow>
             if n = 0 then (True, None, fd', buf', fs, svc)
             else
               let fp = GetFullPath [] os_TempDir (Sprintf_zip part)
               in (case os_Create fs fp of
                     (Inl err, fs1) \<Rightarrow> (True, Some err, fd', buf', fs1, svc)
                   | (Inr tmp, fs1) \<Rightarrow>
                       (case file_Write fs1 tmp buf' of
                          (Some err, tmp', fs2) \<Rightarrow> (True, Some err, fd', buf', fs2, svc)
                        | (None, tmp', fs2) \<Rightarrow>
                            (case put c fs2 svc fp (GetFullPath [] dst (Base fp)) of
                               (Some err, fs3, svc') \<Rightarrow> (False, Some err, fd', buf', fs3, svc')
                             | (None, fs3, svc') \<Rightarrow>
                                 (case os_Remove fs3 fp of
                                    (Some err, fs4) \<Rightarrow> (True, Some err, fd', buf', fs4, svc')
                                  | (None, fs4) \<Rightarrow> (False, None, fd', buf', fs4, svc')))))))"

text \<open>The loop of \<open>putSplitedFile\<close>,
  \<open>for i := 1; !stopped; i++ { stopped, err = c.writeAndPutPartOfFiles(fd, buf, i, dst); ... }\<close>.
  A round that goes on has read at least one byte of the source and has removed its
  temporary file, so the loop ends; the lemmas before it say so.\<close>

lemma map_of_filter_neq: "q \<noteq> p \<Longrightarrow> map_of (filter (\<lambda>e. fst e \<noteq> p) xs) q = map_of xs q"
  by (induction xs) auto

lemma map_of_filter_eq: "map_of (filter (\<lambda>e. fst e \<noteq> p) xs) p = None"
  by (induction xs) auto

lemma lookup_store: "lookup (store fs p n) q = (if q = p then Some n else lookup fs q)"
  by (simp add: lookup_def store_def map_of_filter_neq)

lemma lookup_unlink: "lookup (unlink fs p) q = (if q = p then None else lookup fs q)"
  by (simp add: lookup_def unlink_def map_of_filter_neq map_of_filter_eq)

lemma put_filesystem: "fst (snd (put c fs svc src dst)) = fs"
  by (simp add: put_def split: sum.splits option.splits prod.splits)


text \<open>What is left to read of the file of a descriptor, plus one; 0 when the path
  names no regular file. It is the measure of the loop below.\<close>

definition left :: "filesystem \<Rightarrow> os_File \<Rightarrow> nat" where
  "left fs fd = (case lookup fs (path fd) of Some (FileNode d t) \<Rightarrow> Suc (length d - offset fd) | _ \<Rightarrow> 0)"

lemma os_Remove_None: "os_Remove fs p = (None, fs') \<Longrightarrow> lookup fs' p = None \<and> (\<forall>q. q \<noteq> p \<longrightarrow> lookup fs' q = lookup fs q)"
  by (auto simp: os_Remove_def lookup_unlink split: option.splits node.splits if_splits)

lemma os_Create_other: "os_Create fs p = (r, fs') \<Longrightarrow> q \<noteq> p \<Longrightarrow> lookup fs' q = lookup fs q"
  by (auto simp: os_Create_def lookup_store split: option.splits node.splits if_splits)

lemma file_Write_other: "file_Write fs fd b = (r, fd', fs') \<Longrightarrow> q \<noteq> path fd \<Longrightarrow> lookup fs' q = lookup fs q"
  by (auto simp: file_Write_def lookup_store split: option.splits node.splits if_splits)

lemma os_Create_path: "os_Create fs p = (Inr fd, fs') \<Longrightarrow> path fd = p"
  by (auto simp: os_Create_def split: option.splits node.splits if_splits)

lemma writeAndPutPartOfFiles_continues:
  assumes "writeAndPutPartOfFiles c fs svc fd buf i dst = (False, None, fd', buf', fs', svc')"
  shows "left fs' fd' < left fs fd"
proof -
  let ?fp = "GetFullPath [] os_TempDir (Sprintf_zip i)"
  obtain n rerr b1 fd1 where r: "file_Read fs fd buf = (n, rerr, b1, fd1)"
    by (cases "file_Read fs fd buf") auto
  from assms r have n: "rerr = None" "n \<noteq> 0" and fd': "fd' = fd1"
    by (auto simp: writeAndPutPartOfFiles_def Let_def split: option.splits if_splits prod.splits sum.splits)
  from r n obtain d t where d: "lookup fs (path fd) = Some (FileNode d t)" "offset fd < length d"
     "fd1 = fd\<lparr>offset := offset fd + n\<rparr>"
    by (auto simp: file_Read_def Let_def split: option.splits node.splits if_splits)
  obtain tmp fs1 where c1: "os_Create fs ?fp = (Inr tmp, fs1)"
    using assms r n by (auto simp: writeAndPutPartOfFiles_def Let_def split: option.splits if_splits prod.splits sum.splits)
  obtain tmp' fs2 where c2: "file_Write fs1 tmp b1 = (None, tmp', fs2)"
    using assms r n c1 by (auto simp: writeAndPutPartOfFiles_def Let_def split: option.splits if_splits prod.splits sum.splits)
  obtain fs3 svc3 where c3: "put c fs2 svc ?fp (GetFullPath [] dst (Base ?fp)) = (None, fs3, svc3)"
    using assms r n c1 c2 by (auto simp: writeAndPutPartOfFiles_def Let_def split: option.splits if_splits prod.splits sum.splits)
  have c4: "os_Remove fs3 ?fp = (None, fs')"
    using assms r n c1 c2 c3 by (auto simp: writeAndPutPartOfFiles_def Let_def split: option.splits if_splits prod.splits sum.splits)
  have fs3: "fs3 = fs2" using put_filesystem [of c fs2 svc ?fp "GetFullPath [] dst (Base ?fp)"] c3 by simp
  show ?thesis
  proof (cases "path fd = ?fp")
    case True
    then have "lookup fs' (path fd') = None" using os_Remove_None[OF c4] fd' d by simp
    then show ?thesis using d by (simp add: left_def)
  next
    case False
    then have "lookup fs' (path fd') = lookup fs (path fd)"
      using os_Remove_None[OF c4] fs3 file_Write_other[OF c2] os_Create_other[OF c1] os_Create_path[OF c1] fd' d
      by simp
    then show ?thesis using d n fd' by (simp add: left_def)
  qed
qed

function putSplitedFile_loop ::
  "YandexClient \<Rightarrow> filesystem \<Rightarrow> s3_service \<Rightarrow> os_File \<Rightarrow> byte list \<Rightarrow> nat \<Rightarrow> string \<Rightarrow>
     error option \<times> filesystem \<times> s3_service" where
  "putSplitedFile_loop c fs svc fd buf i dst =
     (case writeAndPutPartOfFiles c fs svc fd buf i dst of
        (stopped, err, fd', buf', fs', svc') \<Rightarrow>
          (case err of
             Some e \<Rightarrow> (Some e, fs', svc')
           | None \<Rightarrow>
               if stopped then (None, fs', svc')
               else putSplitedFile_loop c fs' svc' fd' buf' (i + 1) dst))"
  by pat_completeness auto
termination
  by (relation "measure (\<lambda>(c, fs, svc, fd, buf, i, dst). left fs fd)")
     (auto dest: writeAndPutPartOfFiles_continues [OF sym])


definition putSplitedFile ::
  "YandexClient \<Rightarrow> filesystem \<Rightarrow> s3_service \<Rightarrow> string \<Rightarrow> string \<Rightarrow> error option \<times> filesystem \<times> s3_service" where
  "putSplitedFile c fs svc src dst =
     (let buf = replicate (nat limit) 0
      in (case os_Open fs src of
            Inl err \<Rightarrow> (Some err, fs, svc)
          | Inr fd \<Rightarrow> putSplitedFile_loop c fs svc fd buf 1 dst))"

text \<open>\<open>Write\<close>: the test is \<open>stat.Size()/limit > 0\<close>, a division of two \<open>int64\<close>; the
  size is never negative, so Go's truncating division is \<open>div\<close>.\<close>

definition yandex_Write ::
  "YandexClient \<Rightarrow> filesystem \<Rightarrow> s3_service \<Rightarrow> string \<Rightarrow> string \<Rightarrow> error option \<times> filesystem \<times> s3_service" where
  "yandex_Write c fs svc src dst =
     (case os_Stat fs src of
        Inl err \<Rightarrow> (Some err, fs, svc)
      | Inr stat \<Rightarrow>
          if Size stat div limit > 0 then putSplitedFile c fs svc src dst
          else putOnce c fs svc src dst)"

text \<open>\<open>strings.Split(s, sep)\<close> for a separator of one character: the pieces between
  the separators, one piece (the empty one) for the empty string.\<close>

fun strings_Split :: "string \<Rightarrow> char \<Rightarrow> string list" where
  "strings_Split [] sep = [[]]"
| "strings_Split (x # xs) sep =
     (if x = sep then [] # strings_Split xs sep
      else (case strings_Split xs sep of
              [] \<Rightarrow> [[x]]
            | w # ws \<Rightarrow> (x # w) # ws))"

definition yandex_Ls :: "YandexClient \<Rightarrow> s3_service \<Rightarrow> string \<Rightarrow> error + unit_File list" where
  "yandex_Ls c svc p =
     (case s3_ListObjectsV2 (s3client c) svc (bucketName c) p of
        Inl err \<Rightarrow> Inl err
      | Inr contents \<Rightarrow>
          Inr (fold (\<lambda>object files.
                  let segs = strings_Split (obj_key object) (CHR ''/'');
                      name = segs ! (length segs - 1)
                  in if name \<noteq> [] then files @ [\<lparr>Name = name, Date = obj_modified object\<rparr>]
                     else files)
                contents []))"


definition yandex_Close :: "YandexClient \<Rightarrow> error option" where
  "yandex_Close c = None"

subsection \<open>The spec's words, and the inputs of the examples\<close>

text \<open>The normalizer in the words of the spec: strip one trailing separator from the
  root if present, turn every backslash of the destination into a forward slash, join
  the two with one forward slash.\<close>

definition strip_trailing_separator :: "string \<Rightarrow> string" where
  "strip_trailing_separator r =
     (if r \<noteq> [] \<and> (last r = CHR ''/'' \<or> last r = CHR 0x5C) then butlast r else r)"

definition to_forward_slashes :: "string \<Rightarrow> string" where
  "to_forward_slashes dst = map (\<lambda>ch. if ch = CHR 0x5C then CHR ''/'' else ch) dst"

definition normalized_key :: "string \<Rightarrow> string \<Rightarrow> string" where
  "normalized_key r dst = strip_trailing_separator r @ ''/'' @ to_forward_slashes dst"

text \<open>The entry of a listing in the words of the spec: the name is the final segment of
  the key, the part after its last \<open>/\<close>.\<close>

definition entry_of :: "stored_object \<Rightarrow> unit_File" where
  "entry_of ob = \<lparr>Name = base_name (obj_key ob), Date = obj_modified ob\<rparr>"


text \<open>A client of the bucket \<open>backups\<close> with root \<open>daily\<close>, a service with no object
  and no fault, and a disk with one file and the temporary directory.\<close>

definition example_client :: YandexClient where
  "example_client =
     \<lparr>s3client = \<lparr>cfg_Region = ''ru-central1'',
                   cfg_EndpointResolver = yandexResolver\<rparr>,
      bucketName = ''backups'', cloudSep = ''/'', cloudRoot = ''daily''\<rparr>"

definition empty_service :: s3_service where
  "empty_service = \<lparr>objects = [], transport_error = None, body_error = None, now = 5\<rparr>"

definition disk_with :: "byte list \<Rightarrow> filesystem" where
  "disk_with d = \<lparr>nodes = [(''/data/f'', FileNode d 0), (''/tmp'', DirNode 0)], clock = 1\<rparr>"

definition listing_service :: s3_service where
  "listing_service =
     \<lparr>objects =
        [\<lparr>obj_bucket = ''backups'', obj_key = ''daily/'', obj_data = [], obj_modified = 1\<rparr>,
         \<lparr>obj_bucket = ''backups'', obj_key = ''daily/db/dump.zip'', obj_data = [1, 2], obj_modified = 2\<rparr>,
         \<lparr>obj_bucket = ''backups'', obj_key = ''daily/notes.txt'', obj_data = [3], obj_modified = 3\<rparr>,
         \<lparr>obj_bucket = ''other'', obj_key = ''daily/x'', obj_data = [4], obj_modified = 4\<rparr>],
      transport_error = None, body_error = None, now = 5\<rparr>"

definition store_client :: LocalClient where
  "store_client = \<lparr>root = ''/tmp/store''\<rparr>"

definition listing_disk :: filesystem where
  "listing_disk = \<lparr>nodes = [(''/etc/hostname'', FileNode [104, 111, 115, 116] 0), (''/etc'', DirNode 0)], clock = 1\<rparr>"

text \<open>A service whose connection breaks after two bytes of a body, and the disks of the
  local examples: the scenario of the spec (root \<open>/tmp/store\<close>, source
  \<open>/etc/hostname\<close> of four bytes), the same with a file of 5000 bytes already at
  the destination, and the first after the write.\<close>

definition broken_service :: s3_service where
  "broken_service =
     \<lparr>objects = [\<lparr>obj_bucket = ''backups'', obj_key = ''daily/dump.zip'',
                   obj_data = [1, 2, 3, 4], obj_modified = 2\<rparr>],
      transport_error = None,
      body_error = Some (2, ErrorString ''connection reset by peer''),
      now = 5\<rparr>"

definition small_disk :: filesystem where
  "small_disk =
     \<lparr>nodes = [(''/etc/hostname'', FileNode [104, 111, 115, 116] 0), (''/etc'', DirNode 0), (''/tmp'', DirNode 0)],
      clock = 1\<rparr>"

definition used_disk :: filesystem where
  "used_disk =
     \<lparr>nodes = [(''/tmp/store/sub/hostname.txt'', FileNode (replicate 5000 9) 0),
               (''/tmp/store/sub'', DirNode 0), (''/tmp/store'', DirNode 0),
               (''/etc/hostname'', FileNode [104, 111, 115, 116] 0), (''/etc'', DirNode 0), (''/tmp'', DirNode 0)],
      clock = 1\<rparr>"

definition written_disk :: filesystem where
  "written_disk =
     \<lparr>nodes = [(''/tmp/store/sub/hostname.txt'', FileNode (104 # 111 # 115 # 116 # replicate 4092 0) 1),
               (''/tmp/store/sub'', DirNode 1), (''/tmp/store'', DirNode 1),
               (''/etc/hostname'', FileNode [104, 111, 115, 116] 0), (''/etc'', DirNode 0), (''/tmp'', DirNode 0)],
      clock = 1\<rparr>"

section \<open>Properties\<close>

subsection \<open>The key of an upload\<close>

lemma bytes_ReplaceAll_map: "bytes_ReplaceAll s old new = map (\<lambda>ch. if ch = old then new else ch) s"
  by (induction s) simp_all

lemma NewClient_fields:
  "yandex_NewClient conf env loaded = (Inr c, env') \<Longrightarrow>
     cloudRoot c = Root conf \<and> cloudSep c = ''/'' \<and> bucketName c = BucketName conf"
  by (auto simp: yandex_NewClient_def Let_def split: sum.splits)

text \<open>
  C7. The key of \<open>put\<close> is a function of the root and the destination alone. For
  every configuration with a non-empty root (the spec's condition on a configured root)
  and every destination, the key of the client built from it is the root without one
  trailing \<open>/\<close> or backslash, then one \<open>/\<close>, then the destination with every
  backslash turned into \<open>/\<close>. The witness is the example of the spec: root \<open>a/b/\<close>
  and destination \<open>c\d.txt\<close> give \<open>a/b/c/d.txt\<close>.
\<close>

theorem yapath_normalizes:
  assumes "yandex_NewClient conf env loaded = (Inr c, env')" and "Root conf \<noteq> []"
  shows "yapath c dst = Inr (normalized_key (Root conf) dst)"
proof -
  from assms(1) have f: "cloudRoot c = Root conf" "cloudSep c = ''/''"
    using NewClient_fields by blast+
  have l: "Root conf ! (length (Root conf) - Suc 0) = last (Root conf)"
    using assms(2) by (simp add: last_conv_nth)
  have b: "take (length (Root conf) - Suc 0) (Root conf) = butlast (Root conf)"
    by (simp add: butlast_conv_take)
  show ?thesis
    using assms(2)
    by (simp add: yapath_def Let_def f l b normalized_key_def strip_trailing_separator_def
          to_forward_slashes_def bytes_ReplaceAll_map)
qed

theorem yapath_normalizes_witness:
  "yandex_NewClient \<lparr>Region = ''ru-central1'', KeyId = ''id'', KeySecret = ''secret'',
        BucketName = ''backups'', Root = ''a/b/''\<rparr> [] (Some [])
     = (Inr \<lparr>s3client = \<lparr>cfg_Region = ''ru-central1'',
                cfg_EndpointResolver = yandexResolver\<rparr>,
             bucketName = ''backups'', cloudSep = ''/'', cloudRoot = ''a/b/''\<rparr>,
        [(''AWS_SECRET_ACCESS_KEY'', ''secret''), (''AWS_ACCESS_KEY_ID'', ''id''), (''AWS_REGION'', ''ru-central1'')])
   \<and> yapath \<lparr>s3client = \<lparr>cfg_Region = ''ru-central1'',
                cfg_EndpointResolver = yandexResolver\<rparr>,
             bucketName = ''backups'', cloudSep = ''/'', cloudRoot = ''a/b/''\<rparr>
        (''c'' @ [CHR 0x5C] @ ''d.txt'') = Inr ''a/b/c/d.txt''"
proof -
  have n: "yandex_NewClient \<lparr>Region = ''ru-central1'', KeyId = ''id'', KeySecret = ''secret'',
        BucketName = ''backups'', Root = ''a/b/''\<rparr> [] (Some [])
     = (Inr \<lparr>s3client = \<lparr>cfg_Region = ''ru-central1'',
                cfg_EndpointResolver = yandexResolver\<rparr>,
             bucketName = ''backups'', cloudSep = ''/'', cloudRoot = ''a/b/''\<rparr>,
        [(''AWS_SECRET_ACCESS_KEY'', ''secret''), (''AWS_ACCESS_KEY_ID'', ''id''), (''AWS_REGION'', ''ru-central1'')])"
    by (simp add: yandex_NewClient_def Let_def env_Set_def env_Get_def config_LoadDefaultConfig_def
          s3_NewFromConfig_def)
  show ?thesis
    using yapath_normalizes [OF n, of "''c'' @ [CHR 0x5C] @ ''d.txt''"] n
    by (simp add: normalized_key_def strip_trailing_separator_def to_forward_slashes_def)
qed


subsection \<open>Construction of the remote client\<close>






subsection \<open>The empty root\<close>

lemma os_Open_Inr: "os_Open fs p = Inr fd \<Longrightarrow> fd = \<lparr>path = p, offset = 0\<rparr> \<and> lookup fs p \<noteq> None"
  by (auto simp: os_Open_def split: option.splits)

lemma put_empty_root:
  assumes "cloudRoot c = []" and "os_Open fs src = Inr fd"
  shows "put c fs svc src dst = (Some (Panic ''index out of range''), fs, svc)"
proof -
  from assms(2) obtain n where "lookup fs src = Some n" "path fd = src"
    using os_Open_Inr by fastforce
  then have "file_Stat fs fd = Inr (info_of n)"
    by (simp add: file_Stat_def os_Stat_def)
  then show ?thesis using assms by (simp add: put_def yapath_def)
qed

lemma os_Create_Inr:
  "os_Create fs p = (Inr fd, fs') \<Longrightarrow>
     fd = \<lparr>path = p, offset = 0\<rparr> \<and> lookup fs' p = Some (FileNode [] (clock fs))"
  by (auto simp: os_Create_def lookup_store split: option.splits node.splits if_splits)

lemma os_Stat_large:
  assumes "os_Stat fs p = Inr stat" and "limit \<le> Size stat"
  shows "\<exists>d t. lookup fs p = Some (FileNode d t) \<and> nat limit \<le> length d"
proof (cases "lookup fs p")
  case None
  then show ?thesis using assms by (simp add: os_Stat_def)
next
  case (Some n)
  then show ?thesis using assms
    by (cases n) (auto simp: os_Stat_def info_of_def limit_def)
qed

lemma putSplitedFile_empty_root:
  assumes root: "cloudRoot c = []"
    and st: "os_Stat fs src = Inr stat" and big: "limit \<le> Size stat"
    and cr: "os_Create fs (GetFullPath [] os_TempDir (Sprintf_zip (Suc 0))) = (Inr tmp, fs1)"
  shows "fst (putSplitedFile c fs svc src dst) = Some (Panic ''index out of range'')"
proof -
  let ?fp = "GetFullPath [] os_TempDir (Sprintf_zip (Suc 0))"
  let ?buf = "replicate (nat limit) (0::byte)"
  let ?fd = "\<lparr>path = src, offset = 0\<rparr>"
  from os_Stat_large [OF st big] obtain d t where
    d: "lookup fs src = Some (FileNode d t)" "nat limit \<le> length d" by blast
  have lim: "0 < nat limit" by (simp add: limit_def)
  have op: "os_Open fs src = Inr ?fd" using d by (simp add: os_Open_def)
  let ?got = "take (nat limit) d"
  have rd: "file_Read fs ?fd ?buf = (nat limit, None, ?got, ?fd\<lparr>offset := nat limit\<rparr>)"
  proof -
    from d lim have "d \<noteq> []" by auto
    then show ?thesis using d lim by (simp add: file_Read_def Let_def min_def)
  qed
  from os_Create_Inr [OF cr] have tmp: "tmp = \<lparr>path = ?fp, offset = 0\<rparr>"
    and l1: "lookup fs1 ?fp = Some (FileNode [] (clock fs))" by simp_all
  obtain fs2 tmp' where wr: "file_Write fs1 tmp ?got = (None, tmp', fs2)"
    and l2: "lookup fs2 ?fp \<noteq> None"
    using l1 tmp by (simp add: file_Write_def lookup_store)
  from l2 have "os_Open fs2 ?fp = Inr \<lparr>path = ?fp, offset = 0\<rparr>"
    by (auto simp: os_Open_def split: option.splits)
  from put_empty_root [OF root this]
  have pt: "put c fs2 svc ?fp (GetFullPath [] dst (Base ?fp)) = (Some (Panic ''index out of range''), fs2, svc)" .
  have "writeAndPutPartOfFiles c fs svc ?fd ?buf 1 dst =
          (False, Some (Panic ''index out of range''), ?fd\<lparr>offset := nat limit\<rparr>, ?got, fs2, svc)"
    using lim by (simp add: writeAndPutPartOfFiles_def rd cr wr pt Let_def)
  then have "putSplitedFile_loop c fs svc ?fd ?buf 1 dst = (Some (Panic ''index out of range''), fs2, svc)"
    by (subst putSplitedFile_loop.simps) simp
  then show ?thesis by (simp add: putSplitedFile_def op Let_def)
qed

text \<open>
  C10. Nothing checks that the root is not empty: a configuration with the empty root
  gives a client with the empty root. Whenever \<open>Write\<close> of that client gets as far as
  \<open>put\<close> opening its file, the key construction indexes the empty root and panics.
  This holds for every source that \<open>os.Stat\<close> accepts: below the threshold \<open>Write\<close>
  is \<open>put\<close>; from the threshold on (the hypothesis then asks that the temporary file
  of the first part can be created) the panic comes from the \<open>put\<close> of the first part.
\<close>

theorem empty_root_panics:
  assumes "Root conf = []"
    and "fst (yandex_NewClient conf env loaded) = Inr c"
    and "os_Stat fs src = Inr stat"
    and "limit \<le> Size stat \<longrightarrow>
           os_Create fs (GetFullPath [] os_TempDir (Sprintf_zip 1)) = (Inr tmp, fs1)"
  shows "cloudRoot c = []
    \<and> put c fs svc src dst = (Some (Panic ''index out of range''), fs, svc)
    \<and> fst (yandex_Write c fs svc src dst) = Some (Panic ''index out of range'')"
proof -
  from assms(1,2) have root: "cloudRoot c = []"
    by (cases "yandex_NewClient conf env loaded") (auto dest: NewClient_fields)
  from assms(3) have "lookup fs src \<noteq> None"
    by (auto simp: os_Stat_def split: option.splits)
  then have op: "os_Open fs src = Inr \<lparr>path = src, offset = 0\<rparr>"
    by (auto simp: os_Open_def split: option.splits)
  have p: "put c fs svc src dst = (Some (Panic ''index out of range''), fs, svc)"
    by (rule put_empty_root [OF root op])
  have w: "fst (yandex_Write c fs svc src dst) = Some (Panic ''index out of range'')"
  proof (cases "limit \<le> Size stat")
    case True
    with assms(4) have cr: "os_Create fs (GetFullPath [] os_TempDir (Sprintf_zip (Suc 0))) = (Inr tmp, fs1)"
      by simp
    have "0 \<le> Size stat" using assms(3) by (auto simp: os_Stat_def info_of_def split: option.splits node.splits)
    then have "0 < Size stat div limit" using True by (simp add: limit_def pos_imp_zdiv_pos_iff)
    then show ?thesis
      using putSplitedFile_empty_root [OF root assms(3) True cr] assms(3)
      by (simp add: yandex_Write_def)
  next
    case False
    have "0 \<le> Size stat" using assms(3) by (auto simp: os_Stat_def info_of_def split: option.splits node.splits)
    then have "\<not> 0 < Size stat div limit" using False by (simp add: limit_def pos_imp_zdiv_pos_iff)
    then show ?thesis using assms(3) p by (simp add: yandex_Write_def putOnce_def)
  qed
  show ?thesis using root p w by simp
qed

theorem empty_root_panics_witness:
  "Root \<lparr>Region = ''ru-central1'', KeyId = ''id'', KeySecret = ''secret'',
         BucketName = ''backups'', Root = []\<rparr> = []
   \<and> fst (yandex_NewClient \<lparr>Region = ''ru-central1'', KeyId = ''id'', KeySecret = ''secret'',
              BucketName = ''backups'', Root = []\<rparr> [] (Some [])) = Inr (example_client\<lparr>cloudRoot := []\<rparr>)
   \<and> os_Stat (disk_with (replicate 536870912 7)) ''/data/f'' =
         Inr \<lparr>Size = 536870912, IsDir = False, ModTime = 0\<rparr>
   \<and> os_Create (disk_with (replicate 536870912 7)) (GetFullPath [] os_TempDir (Sprintf_zip 1)) =
         (Inr \<lparr>path = ''/tmp/zip.001'', offset = 0\<rparr>,
          store (disk_with (replicate 536870912 7)) ''/tmp/zip.001'' (FileNode [] 1))
   \<and> put (example_client\<lparr>cloudRoot := []\<rparr>) (disk_with (replicate 536870912 7)) empty_service ''/data/f'' ''k''
        = (Some (Panic ''index out of range''), disk_with (replicate 536870912 7), empty_service)
   \<and> fst (yandex_Write (example_client\<lparr>cloudRoot := []\<rparr>) (disk_with (replicate 536870912 7))
             empty_service ''/data/f'' ''k'') = Some (Panic ''index out of range'')"
proof -
  let ?conf = "\<lparr>Region = ''ru-central1'', KeyId = ''id'', KeySecret = ''secret'',
         BucketName = ''backups'', Root = []\<rparr>"
  let ?fs = "disk_with (replicate 536870912 7)"
  have r: "Root ?conf = []" by simp
  have n: "fst (yandex_NewClient ?conf [] (Some [])) = Inr (example_client\<lparr>cloudRoot := []\<rparr>)"
    by (simp add: yandex_NewClient_def Let_def config_LoadDefaultConfig_def s3_NewFromConfig_def
          env_Get_def env_Set_def example_client_def)
  have s: "os_Stat ?fs ''/data/f'' = Inr \<lparr>Size = 536870912, IsDir = False, ModTime = 0\<rparr>"
    by (simp add: os_Stat_def disk_with_def lookup_def info_of_def)
  have z: "Sprintf_zip 1 = ''zip.001''" by code_simp
  have c: "os_Create ?fs (GetFullPath [] os_TempDir (Sprintf_zip 1)) =
         (Inr \<lparr>path = ''/tmp/zip.001'', offset = 0\<rparr>, store ?fs ''/tmp/zip.001'' (FileNode [] 1))"
    unfolding z
    by (simp add: os_Create_def GetFullPath_def os_TempDir_def lookup_def disk_with_def
          parent_exists_def parent_dir_def)
  then have c': "limit \<le> Size \<lparr>Size = 536870912, IsDir = False, ModTime = 0\<rparr> \<longrightarrow>
      os_Create ?fs (GetFullPath [] os_TempDir (Sprintf_zip 1)) =
         (Inr \<lparr>path = ''/tmp/zip.001'', offset = 0\<rparr>, store ?fs ''/tmp/zip.001'' (FileNode [] 1))"
    by blast
  from empty_root_panics [OF r n s c', of empty_service "''k''"] r n s c
  show ?thesis by blast
qed

subsection \<open>Write of the remote client: one object or parts\<close>

text \<open>The names of the first parts, and the definitions that a run of \<open>Write\<close> on a
  given disk and service unfolds.\<close>

lemma Sprintf_zip_1: "Sprintf_zip (Suc 0) = ''zip.001''"
  by code_simp

lemma Sprintf_zip_2: "Sprintf_zip (Suc (Suc 0)) = ''zip.002''"
  by code_simp

lemma Sprintf_zip_3: "Sprintf_zip (Suc (Suc (Suc 0))) = ''zip.003''"
  by code_simp

lemmas run_yandex =
  yandex_Write_def os_Stat_def lookup_def info_of_def limit_def putSplitedFile_def putOnce_def os_Open_def
  writeAndPutPartOfFiles_def file_Read_def Let_def os_Create_def parent_exists_def parent_dir_def
  GetFullPath_def os_TempDir_def Sprintf_zip_1 Sprintf_zip_2 Sprintf_zip_3 store_def file_Write_def overwrite_def
  put_def file_Stat_def yapath_def s3_PutObject_def s3_send_key_def s3_resolve_def yandexResolver_def s3_ServiceID_def
  file_ReadAll_def upsert_def Base_def base_name_def os_Remove_def unlink_def named_def

lemma os_Stat_Size: "os_Stat fs p = Inr stat \<Longrightarrow> 0 \<le> Size stat"
  by (auto simp: os_Stat_def info_of_def split: option.splits node.splits)

text \<open>
  C2, as stated, fails at the threshold itself: a file of exactly 536870912 bytes is not
  uploaded by \<open>putOnce\<close> under the key of the destination, it goes to
  \<open>putSplitedFile\<close> and arrives as the single part \<open>zip.001\<close> below that key. The
  test of \<open>Write\<close> is \<open>stat.Size()/limit > 0\<close>.
\<close>

theorem Write_at_threshold_counterexample:
  "yandex_Write example_client (disk_with (replicate 536870912 7)) empty_service ''/data/f'' ''k''
     = (None, disk_with (replicate 536870912 7),
        empty_service\<lparr>objects :=
          [\<lparr>obj_bucket = ''backups'', obj_key = ''daily/k/zip.001'',
            obj_data = replicate 536870912 7, obj_modified = 5\<rparr>]\<rparr>)
   \<and> putOnce example_client (disk_with (replicate 536870912 7)) empty_service ''/data/f'' ''k''
     = (None, disk_with (replicate 536870912 7),
        empty_service\<lparr>objects :=
          [\<lparr>obj_bucket = ''backups'', obj_key = ''daily/k'',
            obj_data = replicate 536870912 7, obj_modified = 5\<rparr>]\<rparr>)"
  by (simp add: run_yandex example_client_def empty_service_def disk_with_def)

text \<open>
  C2, amended. For every source that \<open>os.Stat\<close> accepts, \<open>Write\<close> is \<open>putOnce\<close>
  when the size is strictly below the threshold of 536870912 bytes, and
  \<open>putSplitedFile\<close> when the size is at or above it.
\<close>

theorem Write_dispatch:
  assumes "os_Stat fs src = Inr stat"
  shows "yandex_Write c fs svc src dst =
           (if Size stat < limit then putOnce c fs svc src dst else putSplitedFile c fs svc src dst)"
proof -
  have "0 \<le> Size stat" using assms by (rule os_Stat_Size)
  then have "(0 < Size stat div limit) = (limit \<le> Size stat)"
    by (simp add: limit_def pos_imp_zdiv_pos_iff)
  then show ?thesis using assms by (auto simp: yandex_Write_def)
qed

theorem Write_dispatch_witness:
  "os_Stat (disk_with (replicate 536870912 7)) ''/data/f'' = Inr \<lparr>Size = 536870912, IsDir = False, ModTime = 0\<rparr>
   \<and> yandex_Write example_client (disk_with (replicate 536870912 7)) empty_service ''/data/f'' ''k''
     = putSplitedFile example_client (disk_with (replicate 536870912 7)) empty_service ''/data/f'' ''k''"
proof -
  have s: "os_Stat (disk_with (replicate 536870912 7)) ''/data/f'' = Inr \<lparr>Size = 536870912, IsDir = False, ModTime = 0\<rparr>"
    by (simp add: os_Stat_def disk_with_def lookup_def info_of_def)
  show ?thesis using Write_dispatch [OF s, of example_client empty_service "''k''"] s
    by (simp add: limit_def)
qed

text \<open>
  C1 at a file of 536870913 bytes, the threshold plus one: 536870912 bytes \<open>7\<close> and a
  final \<open>9\<close>. \<open>Write\<close> uploads two parts under \<open>daily/k/zip.001\<close> and
  \<open>daily/k/zip.002\<close>, as the claim says. The second part is not the one byte left: it
  is the whole buffer, the \<open>9\<close> followed by the 536870911 bytes the first read left
  there, so the parts together are 1073741824 bytes and not the source.
\<close>

theorem putSplitedFile_pads_last_part:
  "yandex_Write example_client (disk_with (replicate 536870912 7 @ [9])) empty_service ''/data/f'' ''k''
     = (None, disk_with (replicate 536870912 7 @ [9]),
        empty_service\<lparr>objects :=
          [\<lparr>obj_bucket = ''backups'', obj_key = ''daily/k/zip.001'',
            obj_data = replicate 536870912 7, obj_modified = 5\<rparr>,
           \<lparr>obj_bucket = ''backups'', obj_key = ''daily/k/zip.002'',
            obj_data = 9 # replicate 536870911 7, obj_modified = 5\<rparr>]\<rparr>)"
  by (simp add: run_yandex example_client_def empty_service_def disk_with_def)

subsection \<open>Listing\<close>

lemma strings_Split_nonempty: "strings_Split s sep \<noteq> []"
  by (induction s) (auto split: list.splits)

lemma strings_Split_no_sep: "sep \<notin> set s \<Longrightarrow> strings_Split s sep = [s]"
  by (induction s) auto

lemma strings_Split_append:
  "strings_Split (a @ sep # b) sep = strings_Split a sep @ strings_Split b sep"
proof (induction a)
  case Nil
  then show ?case by simp
next
  case (Cons x a)
  obtain w ws where s: "strings_Split a sep = w # ws"
    using strings_Split_nonempty [of a sep] by (cases "strings_Split a sep") auto
  show ?case using Cons s by simp
qed

lemma takeWhile_no_sep: "sep \<notin> set xs \<Longrightarrow> takeWhile (\<lambda>c. c \<noteq> sep) xs = xs"
  by (induction xs) auto

lemma last_strings_Split:
  "strings_Split s sep ! (length (strings_Split s sep) - Suc 0) = rev (takeWhile (\<lambda>c. c \<noteq> sep) (rev s))"
proof -
  have n: "strings_Split s sep ! (length (strings_Split s sep) - Suc 0) = last (strings_Split s sep)"
    using strings_Split_nonempty [of s sep] by (simp add: last_conv_nth)
  have "last (strings_Split s sep) = rev (takeWhile (\<lambda>c. c \<noteq> sep) (rev s))"
  proof (cases "sep \<in> set s")
    case False
    then show ?thesis by (simp add: strings_Split_no_sep takeWhile_no_sep)
  next
    case True
    then obtain a b where ab: "s = a @ sep # b" "sep \<notin> set b"
      using split_list_last [of sep s] by blast
    then have "last (strings_Split s sep) = b"
      by (simp add: strings_Split_append strings_Split_no_sep)
    moreover have "takeWhile (\<lambda>c. c \<noteq> sep) (rev b @ sep # rev a) = rev b"
      using ab(2) by (simp add: takeWhile_tail takeWhile_no_sep)
    ultimately show ?thesis using ab by simp
  qed
  with n show ?thesis by simp
qed


lemma fold_entries:
  "fold (\<lambda>object files.
           let segs = strings_Split (obj_key object) (CHR ''/'');
               name = segs ! (length segs - 1)
           in if name \<noteq> [] then files @ [\<lparr>Name = name, Date = obj_modified object\<rparr>] else files)
     contents acc
   = acc @ map entry_of (filter (\<lambda>ob. base_name (obj_key ob) \<noteq> []) contents)"
  by (induction contents arbitrary: acc)
     (simp_all add: Let_def last_strings_Split base_name_def entry_of_def)

lemma local_Ls_fails_iff: "isl (local_Ls lc fs p) = (\<not> is_dir fs p)"
  by (auto simp: local_Ls_def os_Stat_def is_dir_def info_of_def ioutil_ReadDir_def
        split: option.splits node.splits)

lemma local_Ls_error:
  "\<not> is_dir fs p \<Longrightarrow>
     local_Ls lc fs p =
       (if lookup fs p = None then Inl ErrNotExist else Inl (ErrorString ''file is not a directory''))"
  by (auto simp: local_Ls_def os_Stat_def is_dir_def info_of_def split: option.splits node.splits)

text \<open>
  C8. The local \<open>Ls\<close> fails exactly when the path is not an existing directory: with
  the error of \<open>os.Stat\<close> when nothing is there, with \<open>file is not a directory\<close>
  when a file is. The remote \<open>Ls\<close> returns the error of the list-objects call or else
  one entry for each returned object whose key does not end in \<open>/\<close>, in the order
  returned, named by the part of the key after its last \<open>/\<close>; when no key of the
  bucket starts with the prefix the result is the empty list, not an error.
\<close>

theorem Ls_asymmetry:
  "isl (local_Ls lc fs p) = (\<not> is_dir fs p)
   \<and> (\<not> is_dir fs p \<longrightarrow>
        local_Ls lc fs p =
          (if lookup fs p = None then Inl ErrNotExist else Inl (ErrorString ''file is not a directory'')))
   \<and> yandex_Ls c svc pre =
        (case s3_ListObjectsV2 (s3client c) svc (bucketName c) pre of
           Inl err \<Rightarrow> Inl err
         | Inr contents \<Rightarrow>
             Inr (map entry_of (filter (\<lambda>ob. base_name (obj_key ob) \<noteq> []) contents)))
   \<and> (s3_send (s3client c) svc = None
        \<and> (\<forall>ob \<in> set (objects svc). \<not> (obj_bucket ob = bucketName c \<and> is_prefix pre (obj_key ob)))
        \<longrightarrow> yandex_Ls c svc pre = Inr [])"
proof -
  have r: "yandex_Ls c svc pre =
        (case s3_ListObjectsV2 (s3client c) svc (bucketName c) pre of
           Inl err \<Rightarrow> Inl err
         | Inr contents \<Rightarrow>
             Inr (map entry_of (filter (\<lambda>ob. base_name (obj_key ob) \<noteq> []) contents)))"
    unfolding yandex_Ls_def fold_entries by (simp split: sum.splits)
  have e: "yandex_Ls c svc pre = Inr []"
    if "s3_send (s3client c) svc = None"
      and "\<forall>ob \<in> set (objects svc). \<not> (obj_bucket ob = bucketName c \<and> is_prefix pre (obj_key ob))"
  proof -
    from that(2) have "filter (\<lambda>ob. obj_bucket ob = bucketName c \<and> is_prefix pre (obj_key ob)) (objects svc) = []"
      by (simp add: filter_empty_conv)
    then show ?thesis using that(1) by (simp add: r s3_ListObjectsV2_def)
  qed
  show ?thesis using local_Ls_fails_iff local_Ls_error r e by blast
qed

theorem Ls_asymmetry_witness:
  "local_Ls \<lparr>root = ''/tmp/store''\<rparr> listing_disk ''/missing'' = Inl ErrNotExist
   \<and> local_Ls \<lparr>root = ''/tmp/store''\<rparr> listing_disk ''/etc/hostname'' = Inl (ErrorString ''file is not a directory'')
   \<and> yandex_Ls example_client listing_service ''daily/'' =
        Inr [\<lparr>Name = ''dump.zip'', Date = 2\<rparr>, \<lparr>Name = ''notes.txt'', Date = 3\<rparr>]
   \<and> yandex_Ls example_client listing_service ''weekly/'' = Inr []"
proof -
  have d1: "\<not> is_dir listing_disk ''/missing''" and d2: "\<not> is_dir listing_disk ''/etc/hostname''"
    by (simp_all add: is_dir_def lookup_def listing_disk_def)
  have s: "s3_send (s3client example_client) listing_service = None"
    by (simp add: s3_send_def s3_resolve_def example_client_def listing_service_def yandexResolver_def)
  have n: "\<forall>ob \<in> set (objects listing_service).
             \<not> (obj_bucket ob = bucketName example_client \<and> is_prefix ''weekly/'' (obj_key ob))"
    by (simp add: listing_service_def is_prefix_def)
  have l: "s3_ListObjectsV2 (s3client example_client) listing_service (bucketName example_client) ''daily/''
             = Inr (take 3 (objects listing_service))"
  proof -
    have "bucketName example_client = ''backups''" by (simp add: example_client_def)
    then show ?thesis
      by (simp add: s3_ListObjectsV2_def s) (simp add: listing_service_def is_prefix_def)
  qed
  note A = Ls_asymmetry [of "\<lparr>root = ''/tmp/store''\<rparr>" listing_disk "''/missing''"
                  example_client listing_service "''weekly/''"]
  note B = Ls_asymmetry [of "\<lparr>root = ''/tmp/store''\<rparr>" listing_disk "''/etc/hostname''"
                  example_client listing_service "''daily/''"]
  from A d1 have "local_Ls \<lparr>root = ''/tmp/store''\<rparr> listing_disk ''/missing'' =
      (if lookup listing_disk ''/missing'' = None then Inl ErrNotExist
       else Inl (ErrorString ''file is not a directory''))" by blast
  then have w1: "local_Ls \<lparr>root = ''/tmp/store''\<rparr> listing_disk ''/missing'' = Inl ErrNotExist"
    by (simp add: lookup_def listing_disk_def)
  from B d2 have "local_Ls \<lparr>root = ''/tmp/store''\<rparr> listing_disk ''/etc/hostname'' =
      (if lookup listing_disk ''/etc/hostname'' = None then Inl ErrNotExist
       else Inl (ErrorString ''file is not a directory''))" by blast
  then have w2: "local_Ls \<lparr>root = ''/tmp/store''\<rparr> listing_disk ''/etc/hostname'' =
      Inl (ErrorString ''file is not a directory'')"
    by (simp add: lookup_def listing_disk_def)
  from B have "yandex_Ls example_client listing_service ''daily/'' =
        (case s3_ListObjectsV2 (s3client example_client) listing_service (bucketName example_client) ''daily/'' of
           Inl err \<Rightarrow> Inl err
         | Inr contents \<Rightarrow>
             Inr (map entry_of (filter (\<lambda>ob. base_name (obj_key ob) \<noteq> []) contents)))" by blast
  then have w3: "yandex_Ls example_client listing_service ''daily/'' =
        Inr [\<lparr>Name = ''dump.zip'', Date = 2\<rparr>, \<lparr>Name = ''notes.txt'', Date = 3\<rparr>]"
    by (simp add: l) (simp add: listing_service_def entry_of_def base_name_def)
  from A s n have w4: "yandex_Ls example_client listing_service ''weekly/'' = Inr []" by blast
  show ?thesis using w1 w2 w3 w4 by simp
qed


subsection \<open>Remove\<close>














subsection \<open>Read of the remote client\<close>

text \<open>
  C4 at a response whose connection breaks after two of the four bytes of the object.
  The get-object call succeeds; the body delivers two bytes and then fails with
  \<open>connection reset by peer\<close>. \<open>Read\<close> leaves its loop on that error and returns
  the two bytes with a nil error: the caller gets half the object and no error. Without
  the fault the same call returns the four bytes.
\<close>

theorem Read_drops_body_error:
  "s3_GetObject (s3client example_client) broken_service ''backups'' ''daily/dump.zip'' =
     Inr \<lparr>ContentLength = 4,
          Body = [([1, 2], None), ([], Some (ErrorString ''connection reset by peer''))]\<rparr>
   \<and> yandex_Read example_client broken_service ''daily/dump.zip'' = Inr [1, 2]
   \<and> yandex_Read example_client (broken_service\<lparr>body_error := None\<rparr>) ''daily/dump.zip'' = Inr [1, 2, 3, 4]"
  by (simp add: yandex_Read_def s3_GetObject_def s3_send_key_def s3_resolve_def example_client_def broken_service_def
        yandexResolver_def s3_ServiceID_def named_def body_Read_def)

subsection \<open>Write and Read of the local client\<close>

lemma copy_block_Suc:
  "copy_block res offs buffer (Suc n) =
     (case copy_block res offs buffer n of
        Inl e \<Rightarrow> Inl e
      | Inr res' \<Rightarrow>
          if offs + n < length res' then Inr (res'[offs + n := buffer ! n])
          else Inl (Panic ''index out of range''))"
  by (simp add: copy_block_def)

lemma copy_block_in_range:
  "n \<le> length buffer \<Longrightarrow> offs + n \<le> length res \<Longrightarrow>
     copy_block res offs buffer n = Inr (take offs res @ take n buffer @ drop (offs + n) res)"
proof (induction n)
  case 0
  then show ?case by (simp add: copy_block_def)
next
  case (Suc n)
  let ?r = "take offs res @ take n buffer @ drop (offs + n) res"
  from Suc have ih: "copy_block res offs buffer n = Inr ?r" by simp
  from Suc.prems have len: "length ?r = length res" by simp
  from Suc.prems have d: "drop (offs + n) res = res ! (offs + n) # drop (Suc (offs + n)) res"
    by (simp add: Cons_nth_drop_Suc)
  have "?r[offs + n := buffer ! n] = take offs res @ take (Suc n) buffer @ drop (offs + Suc n) res"
    using Suc.prems by (simp add: list_update_append d take_Suc_conv_app_nth)
  then show ?case using Suc.prems len by (simp add: copy_block_Suc ih)
qed

lemma ancestors_store: "ancestors ''/tmp/store'' = [''/tmp'', ''/tmp/store'']"
  by code_simp

lemma ancestors_sub: "ancestors ''/tmp/store/sub'' = [''/tmp'', ''/tmp/store'', ''/tmp/store/sub'']"
  by code_simp

lemmas run_local =
  local_Write_def stat_or_mkdir_def os_Stat_def lookup_def info_of_def os_IsNotExist_def os_IsExist_def
  os_MkdirAll_def ancestors_store ancestors_sub is_file_def mkdir_if_missing_def store_def GetFullPath_def
  Dir_def parent_dir_def os_OpenFile_CREATE_WRONLY_def parent_exists_def os_Open_def
  local_Write_loop.simps file_Read_def file_Write_def overwrite_def Let_def os_RemoveAll_def
  local_Read_def os_OpenFile_RDWR_def file_Stat_def local_Read_loop.simps copy_block_in_range store_client_def

text \<open>
  C3 at the scenario of the spec and at a destination that already holds 5000 bytes.
  In both \<open>Write\<close> returns nil, and the root and the parent directory of the
  destination exist afterwards. The destination does not equal the source of four
  bytes: every round writes the whole 4096-byte buffer, so the file is the four bytes
  and 4092 zeros. The file that was there is not removed (\<open>os.IsExist\<close> of the result
  of \<open>os.Stat\<close> never holds) and is opened without truncation: its last 904 bytes
  follow the 4096 written ones.
\<close>

theorem local_Write_pads_and_keeps:
  "local_Write store_client small_disk ''/etc/hostname'' ''sub/hostname.txt'' = Some (None, written_disk)
   \<and> local_Write store_client used_disk ''/etc/hostname'' ''sub/hostname.txt'' =
       Some (None, used_disk\<lparr>nodes :=
         (''/tmp/store/sub/hostname.txt'', FileNode (104 # 111 # 115 # 116 # replicate 4092 0 @ replicate 904 9) 1)
           # tl (nodes used_disk)\<rparr>)"
  by (simp add: run_local small_disk_def used_disk_def written_disk_def)

text \<open>What \<open>Read\<close> returns for a regular file, and what a successful \<open>Write\<close>
  leaves at its destination.\<close>

lemma local_Read_loop_file:
  assumes "lookup fs (path fd) = Some (FileNode d t)"
    and "length buffer = 2048" and "length res = length d"
    and "offset fd = min offs (length d)"
    and "take (offset fd) res = take (offset fd) d"
  shows "local_Read_loop fs fd res buffer offs = Some (Inr d)"
  using assms
proof (induction "length d - offset fd" arbitrary: fd res buffer offs rule: less_induct)
  case less
  show ?case
  proof (cases "length d \<le> offset fd")
    case True
    with less.prems have "offset fd = length d" by simp
    with less.prems have "res = d" by simp
    moreover have "file_Read fs fd buffer = (0, Some EOF, buffer, fd)"
      using less.prems True by (simp add: file_Read_def)
    ultimately show ?thesis by (subst local_Read_loop.simps) simp
  next
    case False
    then have o: "offset fd = offs" "offs < length d" using less.prems by auto
    define got where "got = take 2048 (drop offs d)"
    define n where "n = length got"
    define buffer' where "buffer' = got @ drop n buffer"
    define fd' where "fd' = fd\<lparr>offset := offs + n\<rparr>"
    define res' where "res' = take offs res @ take n buffer' @ drop (offs + n) res"
    have n: "0 < n" "n \<le> 2048" "offs + n \<le> length d"
      using o by (auto simp: n_def got_def)
    have g: "take n (drop offs d) = got"
      by (cases "length (drop offs d) \<le> 2048") (simp_all add: n_def got_def)
    have r: "file_Read fs fd buffer = (n, None, buffer', fd')"
      using less.prems o
      by (simp add: file_Read_def Let_def n_def got_def buffer'_def fd'_def)
    have lb: "length buffer' = 2048"
      using less.prems n by (simp add: buffer'_def n_def)
    have tb: "take n buffer' = got" by (simp add: buffer'_def n_def)
    have c: "copy_block res offs buffer' n = Inr res'"
      unfolding res'_def using n less.prems lb by (intro copy_block_in_range) auto
    have "local_Read_loop fs fd' res' buffer' (offs + length buffer') = Some (Inr d)"
    proof (rule less.hyps)
      show "length d - offset fd' < length d - offset fd" using o n by (simp add: fd'_def)
      show "lookup fs (path fd') = Some (FileNode d t)" using less.prems by (simp add: fd'_def)
      show "length buffer' = 2048" by (rule lb)
      show "length res' = length d" using less.prems n by (simp add: res'_def tb n_def [symmetric])
      show "offset fd' = min (offs + length buffer') (length d)"
        unfolding lb using o n by (auto simp: min_def fd'_def n_def got_def)
      have "take (offs + n) res' = take offs res @ got"
        using less.prems n o by (simp add: res'_def tb n_def [symmetric])
      also have "take offs res = take offs d" using less.prems o by simp
      also have "take offs d @ got = take (offs + n) d"
        using n g by (simp add: take_add)
      finally show "take (offset fd') res' = take (offset fd') d" by (simp add: fd'_def)
    qed
    then show ?thesis
      by (subst local_Read_loop.simps) (simp add: r c)
  qed
qed

lemma local_Read_file:
  assumes "lookup fs p = Some (FileNode d t)"
  shows "local_Read c fs p = Some (Inr d)"
proof -
  have "local_Read_loop fs \<lparr>path = p, offset = 0\<rparr> (replicate (length d) 0) (replicate 2048 0) 0 = Some (Inr d)"
    using assms by (intro local_Read_loop_file [where t = t]) simp_all
  then show ?thesis
    using assms by (simp add: local_Read_def os_OpenFile_RDWR_def file_Stat_def os_Stat_def info_of_def)
qed

lemma file_Write_keeps_file:
  "file_Write fs fd b = (None, fd', fs') \<Longrightarrow> path fd' = path fd \<and> is_file fs' (path fd)"
  by (auto simp: file_Write_def is_file_def lookup_store split: option.splits node.splits)

lemma local_Write_loop_keeps_file:
  assumes "local_Write_loop fs rd fd buf = Some y"
  shows "is_file fs (path fd) \<longrightarrow> is_file (snd y) (path fd)"
proof (rule local_Write_loop.raw_induct
    [where P = "\<lambda>fs rd fd buf y. is_file fs (path fd) \<longrightarrow> is_file (snd y) (path fd)", OF _ assms],
    goal_cases)
  case (1 loop fs0 rd0 fd0 buf0 y0)
  obtain n err buf' rd' where r: "file_Read fs0 rd0 buf0 = (n, err, buf', rd')"
    by (cases "file_Read fs0 rd0 buf0") auto
  show ?case
  proof (cases err)
    case (Some e)
    with 1(2) r show ?thesis by (auto split: if_splits)
  next
    case None
    show ?thesis
    proof (cases "0 < n")
      case False
      with 1 r None show ?thesis by auto
    next
      case True
      obtain werr fd' fs' where w: "file_Write fs0 fd0 buf' = (werr, fd', fs')"
        by (cases "file_Write fs0 fd0 buf'") auto
      show ?thesis
      proof (cases werr)
        case (Some e)
        with 1(2) r None True w show ?thesis
          by (auto simp: file_Write_def is_file_def split: option.splits node.splits)
      next
        case N: None
        with w have k: "path fd' = path fd0" "is_file fs' (path fd0)"
          using file_Write_keeps_file by blast+
        from 1(2) r None True w N have "loop fs' rd' fd' buf' = Some y0" by simp
        from 1(1) [OF this] k show ?thesis by simp
      qed
    qed
  qed
qed

lemma os_OpenFile_CREATE_WRONLY_Inr:
  "os_OpenFile_CREATE_WRONLY fs p = (Inr fd, fs') \<Longrightarrow> path fd = p \<and> is_file fs' p"
  by (auto simp: os_OpenFile_CREATE_WRONLY_def is_file_def lookup_store split: option.splits node.splits if_splits)

lemma local_Write_leaves_file:
  assumes "local_Write c fs src key = Some (None, fs')"
  shows "is_file fs' (GetFullPath [] (root c) key)"
proof -
  let ?fpf = "GetFullPath [] (root c) key"
  from assms obtain fs3 fd fs4 rd where
    o: "os_OpenFile_CREATE_WRONLY fs3 ?fpf = (Inr fd, fs4)"
    and l: "local_Write_loop fs4 rd fd (replicate 4096 0) = Some (None, fs')"
    by (auto simp: local_Write_def Let_def split: prod.splits option.splits sum.splits if_splits)
  from os_OpenFile_CREATE_WRONLY_Inr [OF o] local_Write_loop_keeps_file [OF l]
  show ?thesis by simp
qed

text \<open>
  C6, as stated, fails at the scenario of the spec. After the successful \<open>Write\<close> of
  the four-byte source to the key \<open>sub/hostname.txt\<close>, \<open>Read\<close> of that key returns
  an error: \<open>Write\<close> joins the key to the root, \<open>Read\<close> opens the path it is given.
  \<open>Read\<close> of the joined path returns the 4096 bytes \<open>Write\<close> left there, not the
  four of the source; \<open>Read\<close> of the source returns its four bytes.
\<close>

theorem Read_after_Write_counterexample:
  "local_Write store_client small_disk ''/etc/hostname'' ''sub/hostname.txt'' = Some (None, written_disk)
   \<and> local_Read store_client written_disk ''sub/hostname.txt'' = Some (Inl ErrNotExist)
   \<and> local_Read store_client written_disk ''/tmp/store/sub/hostname.txt'' =
       Some (Inr (104 # 111 # 115 # 116 # replicate 4092 0))
   \<and> local_Read store_client written_disk ''/etc/hostname'' = Some (Inr [104, 111, 115, 116])"
  by (simp add: run_local small_disk_def written_disk_def replicate_add [symmetric])

text \<open>
  C6, amended. For every source and key, after a successful \<open>Write\<close> the path made
  of the root and the key holds a regular file, and \<open>Read\<close> of that path returns
  exactly the bytes of that file. (What \<open>Write\<close> puts into the file is the matter of
  C3.)
\<close>

theorem Read_after_Write_path:
  assumes "local_Write c fs src key = Some (None, fs')"
  shows "\<exists>d t. lookup fs' (GetFullPath [] (root c) key) = Some (FileNode d t)
           \<and> local_Read c fs' (GetFullPath [] (root c) key) = Some (Inr d)"
proof -
  from local_Write_leaves_file [OF assms]
  obtain d t where "lookup fs' (GetFullPath [] (root c) key) = Some (FileNode d t)"
    by (auto simp: is_file_def split: option.splits node.splits)
  then show ?thesis using local_Read_file by blast
qed


theorem Read_after_Write_path_witness:
  "local_Write store_client small_disk ''/etc/hostname'' ''sub/hostname.txt'' = Some (None, written_disk)
   \<and> lookup written_disk ''/tmp/store/sub/hostname.txt'' =
         Some (FileNode (104 # 111 # 115 # 116 # replicate 4092 0) 1)
   \<and> local_Read store_client written_disk ''/tmp/store/sub/hostname.txt'' =
         Some (Inr (104 # 111 # 115 # 116 # replicate 4092 0))"
proof -
  have w: "local_Write store_client small_disk ''/etc/hostname'' ''sub/hostname.txt'' = Some (None, written_disk)"
    by (simp add: run_local small_disk_def written_disk_def)
  have p: "GetFullPath [] (root store_client) ''sub/hostname.txt'' = ''/tmp/store/sub/hostname.txt''"
    by (simp add: GetFullPath_def store_client_def)
  have l: "lookup written_disk ''/tmp/store/sub/hostname.txt'' =
         Some (FileNode (104 # 111 # 115 # 116 # replicate 4092 0) 1)"
    by (simp add: lookup_def written_disk_def)
  from Read_after_Write_path [OF w] obtain d t where
    "lookup written_disk ''/tmp/store/sub/hostname.txt'' = Some (FileNode d t)"
    "local_Read store_client written_disk ''/tmp/store/sub/hostname.txt'' = Some (Inr d)"
    unfolding p by blast
  with l w show ?thesis by simp
qed

end
